theory Spec2Isabelle
  imports Main "HOL-Library.Sublist"
begin

section \<open>The Python values and library calls used by \<^verbatim>\<open>bin/filter.py\<close>\<close>

text \<open>
  The exceptions that the modelled statements can raise.  A function that can raise
  returns \<open>error + 'a\<close>, with \<open>Inl\<close> for the exception.
\<close>

datatype error =
    IndexError | KeyError | AttributeError | TypeError | ValueError
  | FileNotFoundError | IsADirectoryError | BadZipFile | RuntimeError | ParseError

subsection \<open>Strings\<close>

text \<open>\<^verbatim>\<open>sub in s\<close> on two strings.\<close>

fun str_in :: "string \<Rightarrow> string \<Rightarrow> bool" where
  "str_in sub [] = (sub = [])"
| "str_in sub (c # cs) = (prefix sub (c # cs) \<or> str_in sub cs)"

text \<open>
  \<^verbatim>\<open>s.replace(old, new)\<close>: every occurrence of \<open>old\<close>, found from the left and not
  overlapping, is replaced.  The counter of \<open>replace_scan\<close> is the number of characters
  of a matched occurrence that are still to be skipped.
\<close>

fun replace_scan :: "string \<Rightarrow> string \<Rightarrow> nat \<Rightarrow> string \<Rightarrow> string" where
  "replace_scan old new k [] = []"
| "replace_scan old new (Suc k) (c # cs) = replace_scan old new k cs"
| "replace_scan old new 0 (c # cs) =
     (if prefix old (c # cs) then new @ replace_scan old new (length old - 1) cs
      else c # replace_scan old new 0 cs)"

definition str_replace :: "string \<Rightarrow> string \<Rightarrow> string \<Rightarrow> string" where
  "str_replace s old new =
     (if old = [] then new @ concat (map (\<lambda>c. c # new) s)
      else replace_scan old new 0 s)"

text \<open>\<^verbatim>\<open>s.split(sep)\<close> for a separator of one character; the result is never empty.\<close>

fun str_split :: "char \<Rightarrow> string \<Rightarrow> string list" where
  "str_split sep [] = [[]]"
| "str_split sep (c # cs) =
     (if c = sep then [] # str_split sep cs
      else (case str_split sep cs of
              w # ws \<Rightarrow> (c # w) # ws
            | [] \<Rightarrow> [[c]]))"

text \<open>\<^verbatim>\<open>xs[-2]\<close>, which raises IndexError on fewer than two elements.\<close>

definition index_neg2 :: "'a list \<Rightarrow> error + 'a" where
  "index_neg2 xs = (if length xs < 2 then Inl IndexError else Inr (xs ! (length xs - 2)))"

text \<open>\<^verbatim>\<open>xs[0]\<close>, which raises IndexError on the empty list.\<close>

definition index0 :: "'a list \<Rightarrow> error + 'a" where
  "index0 xs = (case xs of [] \<Rightarrow> Inl IndexError | x # _ \<Rightarrow> Inr x)"

text \<open>\<^verbatim>\<open>s.rfind(c)\<close> for one character: the last index of \<open>c\<close>, or \<open>-1\<close>.\<close>

definition str_rfind :: "string \<Rightarrow> char \<Rightarrow> int" where
  "str_rfind s c =
     (if c \<in> set s then int (length s) - 1 - int (length (takeWhile (\<lambda>x. x \<noteq> c) (rev s)))
      else - 1)"

subsection \<open>\<^verbatim>\<open>os.path\<close> and \<^verbatim>\<open>pathlib\<close> (POSIX flavour)\<close>

text \<open>\<^verbatim>\<open>os.path.basename\<close>: what follows the last slash.\<close>

definition basename :: "string \<Rightarrow> string" where
  "basename p = rev (takeWhile (\<lambda>c. c \<noteq> CHR ''/'') (rev p))"

text \<open>\<^verbatim>\<open>os.path.join(a, b)\<close> with two arguments.\<close>

definition join :: "string \<Rightarrow> string \<Rightarrow> string" where
  "join a b =
     (if prefix ''/'' b then b
      else if a = [] \<or> suffix ''/'' a then a @ b
      else a @ ''/'' @ b)"

text \<open>
  A \<^verbatim>\<open>pathlib.Path\<close> is its root (\<open>''''\<close>, \<open>''/''\<close> or \<open>''//''\<close>) and its
  components.  \<open>Path s\<close> parses a string as the constructor does: the components are
  the pieces between slashes, without the empty ones and without \<open>''.''\<close>.
\<close>

record path =
  path_root :: string
  path_parts :: "string list"

definition Path :: "string \<Rightarrow> path" where
  "Path s =
     \<lparr> path_root =
         (if prefix ''//'' s \<and> \<not> prefix ''///'' s then ''//''
          else if prefix ''/'' s then ''/'' else ''''),
       path_parts = filter (\<lambda>x. x \<noteq> [] \<and> x \<noteq> ''.'') (str_split CHR ''/'' s) \<rparr>"

fun join_parts :: "string list \<Rightarrow> string" where
  "join_parts [] = []"
| "join_parts [x] = x"
| "join_parts (x # y # ys) = x @ ''/'' @ join_parts (y # ys)"

text \<open>\<^verbatim>\<open>str(p)\<close>.\<close>

definition path_str :: "path \<Rightarrow> string" where
  "path_str p =
     (if path_root p = [] \<and> path_parts p = [] then ''.''
      else path_root p @ join_parts (path_parts p))"

text \<open>\<^verbatim>\<open>p.name\<close> and \<^verbatim>\<open>p.suffix\<close>.\<close>

definition path_name :: "path \<Rightarrow> string" where
  "path_name p = (if path_parts p = [] then [] else last (path_parts p))"

definition path_suffix :: "path \<Rightarrow> string" where
  "path_suffix p =
     (let name = path_name p; i = str_rfind name CHR ''.''
      in if 0 < i \<and> i < int (length name) - 1 then drop (nat i) name else [])"

text \<open>\<^verbatim>\<open>p.parent\<close>: the last component dropped, if there is one.\<close>

definition path_parent :: "path \<Rightarrow> path" where
  "path_parent p = p\<lparr> path_parts := butlast (path_parts p) \<rparr>"

text \<open>\<^verbatim>\<open>p.joinpath(*segments)\<close>: a segment that is absolute replaces what came before it.\<close>

fun joinpath :: "path \<Rightarrow> string list \<Rightarrow> path" where
  "joinpath p [] = p"
| "joinpath p (s # ss) =
     (let q = Path s
      in joinpath (if path_root q \<noteq> [] then q
                   else p\<lparr> path_parts := path_parts p @ path_parts q \<rparr>) ss)"

subsection \<open>\<^verbatim>\<open>xml.etree.ElementTree\<close>\<close>

datatype element =
  Element (elem_tag: string) (elem_attrib: "(string \<times> string) list")
          (elem_text: "string option") (elem_children: "element list")

text \<open>
  One step of an ElementPath location path: \<open>''.''\<close> keeps the context nodes,
  \<open>''*''\<close> selects all their children, a tag selects the children with that tag.
  \<open>findall\<close> covers the paths of this program, which consist of such steps only.
\<close>

definition select_step :: "string \<Rightarrow> element list \<Rightarrow> element list" where
  "select_step tok es =
     (if tok = ''.'' then es
      else if tok = ''*'' then concat (map elem_children es)
      else concat (map (\<lambda>e. filter (\<lambda>c. elem_tag c = tok) (elem_children e)) es))"

definition findall :: "element \<Rightarrow> string \<Rightarrow> element list" where
  "findall e p = foldl (\<lambda>es tok. select_step tok es) [e] (str_split CHR ''/'' p)"

text \<open>
  \<^verbatim>\<open>e.findtext(p)\<close>: None when nothing matches, else the text of the first match,
  the empty string when that element has no text.
\<close>

definition findtext :: "element \<Rightarrow> string \<Rightarrow> string option" where
  "findtext e p =
     (case findall e p of
        [] \<Rightarrow> None
      | c # _ \<Rightarrow> Some (case elem_text c of None \<Rightarrow> [] | Some s \<Rightarrow> s))"

text \<open>\<^verbatim>\<open>e.get(key)\<close>: the attribute, or None.\<close>

definition elem_get :: "element \<Rightarrow> string \<Rightarrow> string option" where
  "elem_get e k = map_of (elem_attrib e) k"

subsection \<open>Files and archives\<close>

text \<open>
  A file's bytes are represented by what the XML parser makes of them: a root element,
  or a ParseError.  A member of a zip archive is stored with bytes that can be read,
  or its data fail the CRC check, or it is encrypted.  A path of the file system names
  a directory, a zip archive with its members in the order of \<^verbatim>\<open>namelist()\<close>, or
  another regular file.
\<close>

datatype content = WellFormed element | NotXml

datatype member = Stored content | BadCRC | Encrypted

datatype fsnode = Directory | ZipArchive "(string \<times> member) list" | RegularFile content

type_synonym filesystem = "string \<Rightarrow> fsnode option"

type_synonym archive = "(string \<times> member) list"

definition ZipFile :: "filesystem \<Rightarrow> string \<Rightarrow> error + archive" where
  "ZipFile fs name =
     (case fs name of
        None \<Rightarrow> Inl FileNotFoundError
      | Some Directory \<Rightarrow> Inl IsADirectoryError
      | Some (RegularFile c) \<Rightarrow> Inl BadZipFile
      | Some (ZipArchive ms) \<Rightarrow> Inr ms)"

definition namelist :: "archive \<Rightarrow> string list" where
  "namelist ms = map fst ms"

text \<open>
  \<^verbatim>\<open>archive.read(name)\<close>: of two members with one name, the later one is read.
  A name that is not in the archive raises KeyError, data that fail the CRC check
  raise BadZipFile, and an encrypted member, read without a password, raises
  RuntimeError.
\<close>

definition archive_read :: "archive \<Rightarrow> string \<Rightarrow> error + content" where
  "archive_read ms name =
     (case map_of (rev ms) name of
        None \<Rightarrow> Inl KeyError
      | Some (Stored c) \<Rightarrow> Inr c
      | Some BadCRC \<Rightarrow> Inl BadZipFile
      | Some Encrypted \<Rightarrow> Inl RuntimeError)"

text \<open>\<^verbatim>\<open>ElementTree.XML(data)\<close> and \<^verbatim>\<open>ElementTree.parse(filename).getroot()\<close>.\<close>

definition XML :: "content \<Rightarrow> error + element" where
  "XML c = (case c of NotXml \<Rightarrow> Inl ParseError | WellFormed e \<Rightarrow> Inr e)"

definition parse_getroot :: "filesystem \<Rightarrow> string \<Rightarrow> error + element" where
  "parse_getroot fs name =
     (case fs name of
        None \<Rightarrow> Inl FileNotFoundError
      | Some Directory \<Rightarrow> Inl IsADirectoryError
      | Some (ZipArchive ms) \<Rightarrow> Inl ParseError
      | Some (RegularFile c) \<Rightarrow> XML c)"

text \<open>\<^verbatim>\<open>d[k] = v\<close> on a dictionary kept in insertion order.\<close>

fun dict_set :: "('k \<times> 'v) list \<Rightarrow> 'k \<Rightarrow> 'v \<Rightarrow> ('k \<times> 'v) list" where
  "dict_set [] k v = [(k, v)]"
| "dict_set ((k', v') # kvs) k v =
     (if k' = k then (k, v) # kvs else (k', v') # dict_set kvs k v)"

section \<open>The collaborators of the filter\<close>

text \<open>
  What \<^verbatim>\<open>filter.py\<close> imports from outside its own file is a parameter of the model:
  \<^item> \<open>acquisitions\<close> is \<^verbatim>\<open>wagl.acquisition.acquisitions\<close>: \<open>Inl\<close> with the
    message of the exception it raises, or \<open>Inr\<close> when it returns a container;
  \<^item> \<open>date_parser\<close> is \<^verbatim>\<open>dateutil.parser.parse\<close>, None when it rejects the string;
  \<^item> \<open>strftime_ymd\<close> is \<^verbatim>\<open>strftime('%Y-%m-%d')\<close> on the parsed value;
  \<^item> \<open>package_exists level1 granule pkgdir\<close> is
    \<^verbatim>\<open>Package(level1, workdir='', granule, pkgdir).output().exists()\<close>.
\<close>

record 'dt env =
  acquisitions :: "string \<Rightarrow> string + unit"
  date_parser :: "string \<Rightarrow> 'dt option"
  strftime_ymd :: "'dt \<Rightarrow> string"
  package_exists :: "string \<Rightarrow> string \<Rightarrow> string \<Rightarrow> bool"

text \<open>
  What the filter does to the world: the lines printed to \<open>out_stream\<close>, the calls
  of the \<^verbatim>\<open>logging\<close> module (level, format, arguments), and the arguments of every
  existence check of an output package, each in the order of execution.
\<close>

datatype level = DEBUG | INFO | WARNING | ERROR

record world =
  out_stream :: "string list"
  log_records :: "(level \<times> string \<times> string list) list"
  pkg_checks :: "(string \<times> string \<times> string) list"

section \<open>\<^verbatim>\<open>get_archive_metadata\<close>\<close>

text \<open>Lines 43 to 47: the members that may be the product metadata document.\<close>

definition mtd_pattern :: "path \<Rightarrow> string" where
  "mtd_pattern pathname =
     str_replace (basename (str_replace (path_str pathname) ''PRD_MSIL1C'' ''MTD_SAFL1C''))
       ''.zip'' ''.xml''"

definition xmlfiles :: "path \<Rightarrow> archive \<Rightarrow> string list" where
  "xmlfiles pathname archive =
     (let found = filter (str_in ''MTD_MSIL1C.xml'') (namelist archive)
      in if found = [] then filter (str_in (mtd_pattern pathname)) (namelist archive)
         else found)"

text \<open>Lines 52 to 57: the granule nodes of the product metadata document.\<close>

definition search_term :: string where
  "search_term = ''./*/Product_Info/Product_Organisation/Granule_List/Granules''"

definition grn_elements :: "element \<Rightarrow> element list" where
  "grn_elements xml_root =
     (let found = findall xml_root search_term
      in if found = [] then findall xml_root (butlast search_term) else found)"

text \<open>
  Lines 59 to 62: the tag of the image identity, chosen on the first granule node.
  A string is true in a condition when it is not empty.
\<close>

definition image_search_term :: "element \<Rightarrow> string" where
  "image_search_term g0 =
     (case findtext g0 ''IMAGE_ID'' of
        None \<Rightarrow> ''IMAGE_FILE''
      | Some t \<Rightarrow> if t \<noteq> [] then ''IMAGE_ID'' else ''IMAGE_FILE'')"

text \<open>Lines 76 to 80: the members that may be the metadata document of a granule.\<close>

definition xmlzipfiles :: "archive \<Rightarrow> string option \<Rightarrow> string option \<Rightarrow> error + string list" where
  "xmlzipfiles archive gran_id processing_baseline =
     (let found = filter (str_in ''MTD_TL.xml'') (namelist archive)
      in if found = [] then
           (case gran_id of
              None \<Rightarrow> Inl AttributeError
            | Some g \<Rightarrow>
                (case processing_baseline of
                   None \<Rightarrow> Inl TypeError
                 | Some pb \<Rightarrow>
                     Inr (filter
                            (str_in (str_replace (str_replace g ''MSI'' ''MTD'') (''_N'' @ pb) ''.xml''))
                            (namelist archive))))
         else Inr found)"

text \<open>Line 73: the metadata document of a granule beside a reference that is no \<^verbatim>\<open>.zip\<close>.\<close>

definition gran_path :: "path \<Rightarrow> string \<Rightarrow> string" where
  "gran_path pathname g =
     path_str (joinpath (path_parent pathname)
       [''GRANULE'', g, str_replace (take (length g - 7) g) ''MSI'' ''MTD'' @ ''.xml''])"

text \<open>Lines 72 to 82: the root element of the metadata document of one granule.\<close>

definition granule_root ::
  "filesystem \<Rightarrow> path \<Rightarrow> archive \<Rightarrow> string option \<Rightarrow> string option \<Rightarrow> error + element" where
  "granule_root fs pathname archive processing_baseline gran_id =
     (if path_suffix pathname \<noteq> ''.zip'' then
        (case gran_id of
           None \<Rightarrow> Inl TypeError
         | Some g \<Rightarrow> parse_getroot fs (gran_path pathname g))
      else
        (case xmlzipfiles archive gran_id processing_baseline of
           Inl e \<Rightarrow> Inl e
         | Inr found \<Rightarrow>
             (case index0 found of
                Inl e \<Rightarrow> Inl e
              | Inr name \<Rightarrow>
                  (case archive_read archive name of
                     Inl e \<Rightarrow> Inl e
                   | Inr mtd_xml \<Rightarrow> XML mtd_xml))))"

text \<open>Lines 83 and 84: the sensing time of a granule, parsed.\<close>

definition sensing_time :: "'dt env \<Rightarrow> element \<Rightarrow> error + 'dt" where
  "sensing_time env root =
     (case index0 (findall root ''./*/SENSING_TIME'') of
        Inl e \<Rightarrow> Inl e
      | Inr st \<Rightarrow>
          (case elem_text st of
             None \<Rightarrow> Inl TypeError
           | Some s \<Rightarrow>
               (case date_parser env s of
                  None \<Rightarrow> Inl ValueError
                | Some d \<Rightarrow> Inr d)))"

text \<open>
  Lines 68 to 84: the loop over the granule nodes, with the dictionary \<open>results\<close> as
  accumulator.  A granule node without the attribute has the key None.
\<close>

fun granules_loop ::
  "'dt env \<Rightarrow> filesystem \<Rightarrow> path \<Rightarrow> archive \<Rightarrow> string option \<Rightarrow> element list \<Rightarrow>
   (string option \<times> 'dt) list \<Rightarrow> error + (string option \<times> 'dt) list" where
  "granules_loop env fs pathname archive processing_baseline [] results = Inr results"
| "granules_loop env fs pathname archive processing_baseline (granule # rest) results =
     (let gran_id = elem_get granule ''granuleIdentifier''
      in case granule_root fs pathname archive processing_baseline gran_id of
           Inl e \<Rightarrow> Inl e
         | Inr root \<Rightarrow>
             (case sensing_time env root of
                Inl e \<Rightarrow> Inl e
              | Inr d \<Rightarrow>
                  granules_loop env fs pathname archive processing_baseline rest
                    (dict_set results gran_id d)))"

text \<open>Lines 50 to 86: from the bytes of the product metadata document to the result.\<close>

definition extract_document ::
  "'dt env \<Rightarrow> filesystem \<Rightarrow> path \<Rightarrow> archive \<Rightarrow> content \<Rightarrow> error + (string option \<times> 'dt) list" where
  "extract_document env fs pathname archive mtd_xml =
     (case XML mtd_xml of
        Inl e \<Rightarrow> Inl e
      | Inr xml_root \<Rightarrow>
          (case index0 (grn_elements xml_root) of
             Inl e \<Rightarrow> Inl e
           | Inr g0 \<Rightarrow>
               (let image_tag = image_search_term g0
                in case index0 (findall xml_root ''./*/Product_Info/PROCESSING_BASELINE'') of
                     Inl e \<Rightarrow> Inl e
                   | Inr pb \<Rightarrow>
                       granules_loop env fs pathname archive (elem_text pb)
                         (grn_elements xml_root) [])))"

definition get_archive_metadata ::
  "'dt env \<Rightarrow> filesystem \<Rightarrow> path \<Rightarrow> error + (string option \<times> 'dt) list" where
  "get_archive_metadata env fs pathname =
     (case ZipFile fs (path_str pathname) of
        Inl e \<Rightarrow> Inl e
      | Inr archive \<Rightarrow>
          (case index0 (xmlfiles pathname archive) of
             Inl e \<Rightarrow> Inl e
           | Inr name \<Rightarrow>
               (case archive_read archive name of
                  Inl e \<Rightarrow> Inl e
                | Inr mtd_xml \<Rightarrow> extract_document env fs pathname archive mtd_xml)))"

section \<open>\<^verbatim>\<open>filter_granule\<close> and \<^verbatim>\<open>filter_granules\<close>\<close>

text \<open>
  Lines 117 to 138: the loop over the items of \<open>granule_md\<close>.  Every path through
  its body leaves the loop (two returns and a break), so no equation calls the
  function again; on the empty dictionary the loop body never runs.
\<close>

fun granule_md_loop ::
  "'dt env \<Rightarrow> world \<Rightarrow> path \<Rightarrow> string set \<Rightarrow> string \<Rightarrow> int \<Rightarrow>
   (string option \<times> 'dt) list \<Rightarrow> (string option \<times> 'dt) list \<Rightarrow> world \<times> (error + int)" where
  "granule_md_loop env w level1_dataset good_tile_ids pkgdir count granule_md [] =
     (w, Inr count)"
| "granule_md_loop env w level1_dataset good_tile_ids pkgdir count granule_md
     ((granule, sensing_date) # rest) =
     (case granule of
        None \<Rightarrow> (w, Inl AttributeError)
      | Some g \<Rightarrow>
          (case index_neg2 (str_split CHR ''_'' g) of
             Inl e \<Rightarrow> (w, Inl e)
           | Inr tile_id \<Rightarrow>
               if tile_id \<notin> good_tile_ids then
                 (w\<lparr> log_records := log_records w @
                       [(INFO, ''granule %s with MGRS tile ID %s outside AOI'', [g, tile_id])] \<rparr>,
                  Inr count)
               else
                 (let ymd = strftime_ymd env sensing_date;
                      pkg = join pkgdir ymd;
                      w1 = w\<lparr> pkg_checks := pkg_checks w @
                                [(path_str level1_dataset, g, pkg)] \<rparr>
                  in if package_exists env (path_str level1_dataset) g pkg then
                       (w1\<lparr> log_records := log_records w1 @
                              [(DEBUG, ''granule %s already processed'', [g])] \<rparr>,
                        Inr count)
                     else
                       (w1\<lparr> log_records := log_records w1 @
                              [(INFO, ''level1 dataset %s needs to be processed'',
                                [path_str level1_dataset])],
                            out_stream := out_stream w1 @ [path_str level1_dataset] \<rparr>,
                        Inr (count + int (length granule_md))))))"

definition filter_granule ::
  "'dt env \<Rightarrow> filesystem \<Rightarrow> world \<Rightarrow> path \<Rightarrow> string set \<Rightarrow> string \<Rightarrow> int \<Rightarrow>
   world \<times> (error + int)" where
  "filter_granule env fs w level1_dataset good_tile_ids pkgdir count =
     (case acquisitions env (path_str level1_dataset) of
        Inl e \<Rightarrow>
          (w\<lparr> log_records := log_records w @
                [(WARNING, ''encountered unexpected error for %s: %s'',
                  [path_str level1_dataset, e]),
                 (ERROR, e, [])] \<rparr>,
           Inr count)
      | Inr container \<Rightarrow>
          (case get_archive_metadata env fs level1_dataset of
             Inl e \<Rightarrow> (w, Inl e)
           | Inr granule_md \<Rightarrow>
               granule_md_loop env w level1_dataset good_tile_ids pkgdir count
                 granule_md granule_md))"

text \<open>
  Lines 93 to 101: the datasets one after the other, the count of one call passed to
  the next.  An exception of \<open>filter_granule\<close> ends the loop.
\<close>

fun filter_granules_loop ::
  "'dt env \<Rightarrow> filesystem \<Rightarrow> world \<Rightarrow> path list \<Rightarrow> string set \<Rightarrow> string \<Rightarrow> int \<Rightarrow>
   world \<times> (error + int)" where
  "filter_granules_loop env fs w [] good_tile_ids pkgdir count = (w, Inr count)"
| "filter_granules_loop env fs w (level1_dataset # rest) good_tile_ids pkgdir count =
     (case filter_granule env fs w level1_dataset good_tile_ids pkgdir count of
        (w', Inl e) \<Rightarrow> (w', Inl e)
      | (w', Inr count') \<Rightarrow> filter_granules_loop env fs w' rest good_tile_ids pkgdir count')"

definition filter_granules ::
  "'dt env \<Rightarrow> filesystem \<Rightarrow> world \<Rightarrow> path list \<Rightarrow> string set \<Rightarrow> string \<Rightarrow>
   world \<times> (error + int)" where
  "filter_granules env fs w raw_zips good_tile_ids pkgdir =
     filter_granules_loop env fs w raw_zips good_tile_ids pkgdir 0"

section \<open>Notions used to state the properties\<close>

definition empty_world :: world where
  "empty_world = \<lparr> out_stream = [], log_records = [], pkg_checks = [] \<rparr>"

text \<open>
  The decision on one dataset, read off a call of \<open>filter_granule\<close> that starts
  with nothing written: the dataset is accepted when the call writes a line, and it
  raises when the call ends with an exception.
\<close>

definition accepted :: "'dt env \<Rightarrow> filesystem \<Rightarrow> string set \<Rightarrow> string \<Rightarrow> path \<Rightarrow> bool" where
  "accepted env fs good_tile_ids pkgdir p \<longleftrightarrow>
     out_stream (fst (filter_granule env fs empty_world p good_tile_ids pkgdir 0)) \<noteq> []"

definition raises :: "'dt env \<Rightarrow> filesystem \<Rightarrow> string set \<Rightarrow> string \<Rightarrow> path \<Rightarrow> bool" where
  "raises env fs good_tile_ids pkgdir p \<longleftrightarrow>
     isl (snd (filter_granule env fs empty_world p good_tile_ids pkgdir 0))"

text \<open>
  Lines 71 to 84 for one granule node: the sensing time read from the metadata document
  of the granule, or the exception raised on the way.
\<close>

definition granule_time ::
  "'dt env \<Rightarrow> filesystem \<Rightarrow> path \<Rightarrow> archive \<Rightarrow> string option \<Rightarrow> element \<Rightarrow> error + 'dt" where
  "granule_time env fs pathname archive processing_baseline granule =
     (case granule_root fs pathname archive processing_baseline
             (elem_get granule ''granuleIdentifier'') of
        Inl e \<Rightarrow> Inl e
      | Inr root \<Rightarrow> sensing_time env root)"

text \<open>The dictionary that holds the given items, assigned in their order.\<close>

definition dict_of :: "('k \<times> 'v) list \<Rightarrow> ('k \<times> 'v) list" where
  "dict_of items = foldl (\<lambda>d (k, v). dict_set d k v) [] items"

text \<open>
  The retry path as the specification words it: the search path without its final
  path segment.  The program takes \<open>butlast search_term\<close>, the search path without
  its final character.
\<close>

definition spec_retry_term :: string where
  "spec_retry_term = join_parts (butlast (str_split CHR ''/'' search_term))"

text \<open>
  Two documents that differ in the image identity of their granules only: the granule
  nodes are five levels below the root, and \<open>strip_image_ids 5\<close> removes the
  \<^verbatim>\<open>IMAGE_ID\<close> and \<^verbatim>\<open>IMAGE_FILE\<close> children of every element at that level.  Two file
  systems agree up to image identity when they are equal after every document in them,
  file or archive member, has been stripped.
\<close>

fun strip_image_ids :: "nat \<Rightarrow> element \<Rightarrow> element" where
  "strip_image_ids 0 (Element t a x cs) =
     Element t a x (filter (\<lambda>c. elem_tag c \<noteq> ''IMAGE_ID'' \<and> elem_tag c \<noteq> ''IMAGE_FILE'') cs)"
| "strip_image_ids (Suc n) (Element t a x cs) =
     Element t a x (map (strip_image_ids n) cs)"

definition strip_content :: "content \<Rightarrow> content" where
  "strip_content c =
     (case c of NotXml \<Rightarrow> NotXml | WellFormed e \<Rightarrow> WellFormed (strip_image_ids 5 e))"

definition strip_member :: "member \<Rightarrow> member" where
  "strip_member m =
     (case m of Stored c \<Rightarrow> Stored (strip_content c) | BadCRC \<Rightarrow> BadCRC
      | Encrypted \<Rightarrow> Encrypted)"

definition strip_archive :: "archive \<Rightarrow> archive" where
  "strip_archive ms = map (\<lambda>(name, m). (name, strip_member m)) ms"

definition strip_node :: "fsnode \<Rightarrow> fsnode" where
  "strip_node n =
     (case n of
        Directory \<Rightarrow> Directory
      | ZipArchive ms \<Rightarrow> ZipArchive (strip_archive ms)
      | RegularFile c \<Rightarrow> RegularFile (strip_content c))"

definition strip_fs :: "filesystem \<Rightarrow> filesystem" where
  "strip_fs fs = (\<lambda>name. map_option strip_node (fs name))"

section \<open>Example datasets\<close>

text \<open>
  A granule metadata document with a sensing time, and a product metadata document
  whose granule nodes have the given tag, identifiers and image identity tags.
\<close>

definition granule_doc :: "string \<Rightarrow> content" where
  "granule_doc t =
     WellFormed (Element ''n1:Level-1C_Tile_ID'' [] None
       [Element ''n1:General_Info'' [] None
          [Element ''SENSING_TIME'' [] (Some t) []]])"

definition granule_list_root :: "element list \<Rightarrow> element" where
  "granule_list_root gs =
     Element ''n1:Level-1C_User_Product'' [] None
       [Element ''n1:General_Info'' [] None
          [Element ''Product_Info'' [] None
             [Element ''PROCESSING_BASELINE'' [] (Some ''02.04'') [],
              Element ''Product_Organisation'' [] None
                [Element ''Granule_List'' [] None gs]]]]"

definition granule_list_doc :: "element list \<Rightarrow> content" where
  "granule_list_doc gs = WellFormed (granule_list_root gs)"

definition product_root :: "string \<Rightarrow> (string \<times> string) list \<Rightarrow> element" where
  "product_root gtag gs =
     granule_list_root
       (map (\<lambda>(g, img). Element gtag [(''granuleIdentifier'', g)] None
                          [Element img [] (Some ''B01'') []]) gs)"

definition product_doc :: "string \<Rightarrow> (string \<times> string) list \<Rightarrow> content" where
  "product_doc gtag gs = WellFormed (product_root gtag gs)"

text \<open>
  The collaborators of the examples: every dataset opens, a time is the string itself
  and its date the first ten characters, and no output package exists, or every one.
\<close>

definition example_env :: "bool \<Rightarrow> string env" where
  "example_env processed =
     \<lparr> acquisitions = (\<lambda>name. Inr ()), date_parser = Some, strftime_ymd = take 10,
       package_exists = (\<lambda>level1 granule pkgdir. processed) \<rparr>"

text \<open>
  \<^item> \<open>a.zip\<close>: two granules, the first on tile T99ZZZ, the second on tile T50HMH;
  \<^item> \<open>b.zip\<close>: an archive without any metadata member;
  \<^item> \<open>c.zip\<close>: one granule on tile T55HFA, in the layout with \<^verbatim>\<open>Granule\<close> nodes;
  \<^item> \<open>S2A_OPER_PRD_MSIL1C_X.zip\<close>: one granule, the documents under their older names;
  \<^item> \<open>x.zip\<close>: the same two documents under their newer names;
  \<^item> \<open>S2A_OPER_PRD_MSIL1C_Y.zip\<close>: a member under the older name that is no XML;
  \<^item> \<open>e.zip\<close>: a granule list without granule nodes;
  \<^item> \<open>x.SAFE\<close>: a directory with the layout of an unpacked product.
\<close>

definition old_names_archive :: archive where
  "old_names_archive =
     [(''X.SAFE/S2A_OPER_MTD_SAFL1C_X.xml'',
       Stored (product_doc ''Granules''
                 [(''S2A_OPER_MSI_L1C_TL_T50HMH_N02.04'', ''IMAGE_ID'')])),
      (''X.SAFE/GRANULE/G/S2A_OPER_MTD_L1C_TL_T50HMH.xml'',
       Stored (granule_doc ''2016-01-05T02:10:00Z''))]"

definition new_names_archive :: archive where
  "new_names_archive =
     [(''X.SAFE/MTD_MSIL1C.xml'',
       Stored (product_doc ''Granules''
                 [(''S2A_OPER_MSI_L1C_TL_T50HMH_N02.04'', ''IMAGE_ID'')])),
      (''X.SAFE/GRANULE/G/MTD_TL.xml'',
       Stored (granule_doc ''2016-01-05T02:10:00Z''))]"

definition not_xml_archive :: archive where
  "not_xml_archive = [(''Y.SAFE/S2A_OPER_MTD_SAFL1C_Y.xml'', Stored NotXml)]"

definition example_fs :: filesystem where
  "example_fs =
     [''/d/a.zip'' \<mapsto> ZipArchive
        [(''a.SAFE/MTD_MSIL1C.xml'',
          Stored (product_doc ''Granules''
            [(''S2A_T99ZZZ_N02.04'', ''IMAGE_ID''), (''S2A_T50HMH_N02.04'', ''IMAGE_ID'')])),
         (''a.SAFE/GRANULE/g/MTD_TL.xml'', Stored (granule_doc ''2021-03-01T00:12:00Z''))],
      ''/d/b.zip'' \<mapsto> ZipArchive [(''b.SAFE/readme.txt'', Stored NotXml)],
      ''/d/c.zip'' \<mapsto> ZipArchive
        [(''c.SAFE/MTD_MSIL1C.xml'',
          Stored (product_doc ''Granule'' [(''S2B_T55HFA_N02.04'', ''IMAGE_FILE'')])),
         (''c.SAFE/GRANULE/g/MTD_TL.xml'', Stored (granule_doc ''2021-03-01T00:12:00Z''))],
      ''/d/S2A_OPER_PRD_MSIL1C_X.zip'' \<mapsto> ZipArchive old_names_archive,
      ''/d/x.zip'' \<mapsto> ZipArchive new_names_archive,
      ''/d/S2A_OPER_PRD_MSIL1C_Y.zip'' \<mapsto> ZipArchive not_xml_archive,
      ''/d/e.zip'' \<mapsto> ZipArchive
        [(''e.SAFE/MTD_MSIL1C.xml'', Stored (granule_list_doc []))],
      ''/d/x.SAFE'' \<mapsto> Directory,
      ''/d/x.SAFE/MTD_MSIL1C.xml'' \<mapsto> RegularFile
        (product_doc ''Granule'' [(''S2B_MSI_T55HFA_N02.04'', ''IMAGE_FILE'')]),
      ''/d/x.SAFE/GRANULE/S2B_MSI_T55HFA_N02.04/S2B_MTD_T55HFA.xml'' \<mapsto> RegularFile
        (granule_doc ''2021-03-01T00:12:00Z'')]"

text \<open>The file system of the examples with the image identity of \<open>a.zip\<close> changed.\<close>

definition example_fs' :: filesystem where
  "example_fs' =
     example_fs(''/d/a.zip'' \<mapsto> ZipArchive
        [(''a.SAFE/MTD_MSIL1C.xml'',
          Stored (product_doc ''Granules''
            [(''S2A_T99ZZZ_N02.04'', ''IMAGE_FILE''), (''S2A_T50HMH_N02.04'', ''IMAGE_FILE'')])),
         (''a.SAFE/GRANULE/g/MTD_TL.xml'', Stored (granule_doc ''2021-03-01T00:12:00Z''))])"

section \<open>The decision on one dataset\<close>

text \<open>
  What one call of \<open>filter_granule\<close> adds to the output does not depend on what was
  written before nor on the count, and a call that raises has changed nothing.
\<close>

lemma granule_md_loop_out_stream:
  "out_stream (fst (granule_md_loop env w p roi pkgdir c md items)) = out_stream w \<or>
   out_stream (fst (granule_md_loop env w p roi pkgdir c md items)) = out_stream w @ [path_str p]"
  by (cases items) (auto simp: Let_def split: option.splits sum.splits)

lemma granule_md_loop_frame:
  "out_stream (fst (granule_md_loop env w p roi pkgdir c md items)) =
   out_stream w @ out_stream (fst (granule_md_loop env empty_world p roi pkgdir 0 md items))"
  by (cases items) (auto simp: Let_def empty_world_def split: option.splits sum.splits)

lemma granule_md_loop_isl:
  "isl (snd (granule_md_loop env w p roi pkgdir c md items)) =
   isl (snd (granule_md_loop env empty_world p roi pkgdir 0 md items))"
  by (cases items) (auto simp: Let_def empty_world_def split: option.splits sum.splits if_splits)

lemma granule_md_loop_raises_silent:
  "granule_md_loop env w p roi pkgdir c md items = (w', Inl e) \<Longrightarrow> w' = w"
  by (cases items) (auto simp: Let_def split: option.splits sum.splits if_splits)

lemma filter_granule_frame:
  "out_stream (fst (filter_granule env fs w p roi pkgdir c)) =
   out_stream w @ out_stream (fst (filter_granule env fs empty_world p roi pkgdir 0))"
  unfolding filter_granule_def
  by (auto simp: empty_world_def granule_md_loop_frame [of env w] split: sum.splits)

lemma filter_granule_isl:
  "isl (snd (filter_granule env fs w p roi pkgdir c)) = raises env fs roi pkgdir p"
  unfolding filter_granule_def raises_def
  by (auto simp: granule_md_loop_isl [of env w] split: sum.splits)

lemma filter_granule_raises_silent:
  "filter_granule env fs w p roi pkgdir c = (w', Inl e) \<Longrightarrow> w' = w"
  unfolding filter_granule_def
  by (auto dest: granule_md_loop_raises_silent split: sum.splits)

lemma filter_granule_written:
  "out_stream (fst (filter_granule env fs w p roi pkgdir c)) =
   out_stream w @ (if accepted env fs roi pkgdir p then [path_str p] else [])"
proof -
  have "out_stream (fst (filter_granule env fs empty_world p roi pkgdir 0)) = [] \<or>
        out_stream (fst (filter_granule env fs empty_world p roi pkgdir 0)) = [path_str p]"
    unfolding filter_granule_def
    using granule_md_loop_out_stream [of env empty_world p roi pkgdir 0]
    by (auto simp: empty_world_def split: sum.splits)
  then show ?thesis
    using filter_granule_frame [of env fs w p roi pkgdir c]
    by (auto simp: accepted_def)
qed

lemma filter_granules_loop_written:
  "out_stream (fst (filter_granules_loop env fs w ds roi pkgdir c)) =
   out_stream w @ map path_str (filter (accepted env fs roi pkgdir)
                     (takeWhile (\<lambda>p. \<not> raises env fs roi pkgdir p) ds))"
proof (induction ds arbitrary: w c)
  case Nil
  then show ?case by simp
next
  case (Cons d ds)
  obtain w1 r where step: "filter_granule env fs w d roi pkgdir c = (w1, r)"
    by (cases "filter_granule env fs w d roi pkgdir c")
  have out1: "out_stream w1 = out_stream w @ (if accepted env fs roi pkgdir d then [path_str d] else [])"
    using filter_granule_written [of env fs w d roi pkgdir c] step by simp
  have isl1: "isl r = raises env fs roi pkgdir d"
    using filter_granule_isl [of env fs w d roi pkgdir c] step by simp
  show ?case
  proof (cases r)
    case (Inl e)
    then have "w1 = w" using step filter_granule_raises_silent by blast
    then show ?thesis using Inl step isl1 by simp
  next
    case (Inr c1)
    then show ?thesis using step isl1 out1 Cons.IH [of w1 c1] by simp
  qed
qed

lemma filter_granules_loop_returns:
  "filter_granules_loop env fs w ds roi pkgdir c = (w', Inr n) \<Longrightarrow>
   \<forall>p \<in> set ds. \<not> raises env fs roi pkgdir p"
proof (induction ds arbitrary: w c)
  case Nil
  then show ?case by simp
next
  case (Cons d ds)
  obtain w1 r where step: "filter_granule env fs w d roi pkgdir c = (w1, r)"
    by (cases "filter_granule env fs w d roi pkgdir c")
  have isl1: "isl r = raises env fs roi pkgdir d"
    using filter_granule_isl [of env fs w d roi pkgdir c] step by simp
  show ?case
  proof (cases r)
    case (Inl e)
    then show ?thesis using Cons.prems step by simp
  next
    case (Inr c1)
    then show ?thesis using Cons.prems step isl1 Cons.IH [of w1 c1] by simp
  qed
qed

lemma granule_md_loop_accepting:
  assumes "granule_md_loop env w p roi pkgdir count md items = (w', r)"
    and "out_stream w' \<noteq> out_stream w"
  shows "\<exists>g d rest. items = (Some g, d) # rest \<and>
           out_stream w' = out_stream w @ [path_str p] \<and>
           r = Inr (count + int (length md)) \<and>
           pkg_checks w' = pkg_checks w @ [(path_str p, g, join pkgdir (strftime_ymd env d))] \<and>
           log_records w' = log_records w @
             [(INFO, ''level1 dataset %s needs to be processed'', [path_str p])]"
proof (cases items)
  case Nil
  then show ?thesis using assms by simp
next
  case (Cons item rest)
  obtain granule d where item: "item = (granule, d)" by (cases item)
  show ?thesis
    using assms unfolding Cons item
    by (auto simp: Let_def split: option.splits sum.splits if_splits)
qed

lemma worklist_write_implies_acceptance:
  assumes "filter_granule env fs w p roi pkgdir count = (w', r)"
    and "out_stream w' \<noteq> out_stream w"
  shows "\<exists>g d rest. get_archive_metadata env fs p = Inr ((Some g, d) # rest) \<and>
           out_stream w' = out_stream w @ [path_str p] \<and>
           r = Inr (count + int (length ((Some g, d) # rest))) \<and>
           pkg_checks w' = pkg_checks w @ [(path_str p, g, join pkgdir (strftime_ymd env d))] \<and>
           log_records w' = log_records w @
             [(INFO, ''level1 dataset %s needs to be processed'', [path_str p])]"
proof (cases "acquisitions env (path_str p)")
  case (Inl e)
  then show ?thesis using assms unfolding filter_granule_def by auto
next
  case (Inr u)
  show ?thesis
  proof (cases "get_archive_metadata env fs p")
    case (Inl e)
    then show ?thesis using assms Inr unfolding filter_granule_def by auto
  next
    case md: (Inr md)
    have "granule_md_loop env w p roi pkgdir count md md = (w', r)"
      using assms(1) Inr md unfolding filter_granule_def by simp
    from granule_md_loop_accepting [OF this assms(2)] md show ?thesis by auto
  qed
qed

lemma granule_md_loop_checks:
  "\<exists>cs. pkg_checks (fst (granule_md_loop env w p roi pkgdir count md items)) = pkg_checks w @ cs \<and>
     length cs \<le> 1 \<and>
     (\<forall>c \<in> set cs. \<exists>g d rest t. items = (Some g, d) # rest \<and>
        index_neg2 (str_split CHR ''_'' g) = Inr t \<and> t \<in> roi \<and>
        c = (path_str p, g, join pkgdir (strftime_ymd env d)))"
proof (cases items)
  case Nil
  then show ?thesis by simp
next
  case (Cons item rest)
  obtain granule d where item: "item = (granule, d)" by (cases item)
  show ?thesis
    unfolding Cons item
    by (auto simp: Let_def split: option.splits sum.splits)
qed

section \<open>Stripping the image identity\<close>

text \<open>
  Every lookup of the extractor commutes with \<open>strip_image_ids\<close>: the location paths
  stop at the granule nodes or above them, and tags, attributes and texts are kept.
\<close>

lemma strip_image_ids_fields:
  "elem_tag (strip_image_ids n e) = elem_tag e"
  "elem_attrib (strip_image_ids n e) = elem_attrib e"
  "elem_text (strip_image_ids n e) = elem_text e"
  by (cases n; cases e; simp)+

lemma strip_image_ids_children:
  "elem_children (strip_image_ids (Suc n) e) = map (strip_image_ids n) (elem_children e)"
  by (cases e) simp

lemma select_step_strip:
  assumes "tok \<noteq> ''.''"
  shows "select_step tok (map (strip_image_ids (Suc n)) es) =
         map (strip_image_ids n) (select_step tok es)"
proof -
  have "filter (\<lambda>c. elem_tag c = tok) (map (strip_image_ids n) cs) =
        map (strip_image_ids n) (filter (\<lambda>c. elem_tag c = tok) cs)" for cs
    by (simp add: filter_map o_def strip_image_ids_fields)
  then show ?thesis
    using assms
    by (simp add: select_step_def map_concat o_def strip_image_ids_children)
qed

lemma child_steps_strip:
  "''.'' \<notin> set toks \<Longrightarrow>
   foldl (\<lambda>es tok. select_step tok es) (map (strip_image_ids (length toks + n)) es) toks =
   map (strip_image_ids n) (foldl (\<lambda>es tok. select_step tok es) es toks)"
proof (induction toks arbitrary: es)
  case Nil
  then show ?case by simp
next
  case (Cons tok toks)
  from Cons.prems have "tok \<noteq> ''.''" by auto
  then show ?case
    using Cons.IH Cons.prems by (simp add: select_step_strip)
qed

lemma split_search_term:
  "str_split CHR ''/'' search_term =
     [''.'', ''*'', ''Product_Info'', ''Product_Organisation'', ''Granule_List'', ''Granules'']"
  "str_split CHR ''/'' (butlast search_term) =
     [''.'', ''*'', ''Product_Info'', ''Product_Organisation'', ''Granule_List'', ''Granule'']"
  "str_split CHR ''/'' ''./*/Product_Info/PROCESSING_BASELINE'' =
     [''.'', ''*'', ''Product_Info'', ''PROCESSING_BASELINE'']"
  "str_split CHR ''/'' ''./*/SENSING_TIME'' = [''.'', ''*'', ''SENSING_TIME'']"
  by code_simp+

lemma select_self: "select_step ''.'' es = es"
  by (simp add: select_step_def)

lemma findall_strip_granules:
  "findall (strip_image_ids 5 e) search_term = map (strip_image_ids 0) (findall e search_term)"
  "findall (strip_image_ids 5 e) (butlast search_term) =
     map (strip_image_ids 0) (findall e (butlast search_term))"
  using child_steps_strip [of "[''*'', ''Product_Info'', ''Product_Organisation'', ''Granule_List'', ''Granules'']" 0 "[e]"]
    child_steps_strip [of "[''*'', ''Product_Info'', ''Product_Organisation'', ''Granule_List'', ''Granule'']" 0 "[e]"]
  by (simp_all add: findall_def split_search_term select_self eval_nat_numeral)

lemma findall_strip_baseline:
  "findall (strip_image_ids 5 e) ''./*/Product_Info/PROCESSING_BASELINE'' =
     map (strip_image_ids 2) (findall e ''./*/Product_Info/PROCESSING_BASELINE'')"
  using child_steps_strip [of "[''*'', ''Product_Info'', ''PROCESSING_BASELINE'']" 2 "[e]"]
  by (simp add: findall_def split_search_term select_self eval_nat_numeral)

lemma findall_strip_sensing:
  "findall (strip_image_ids 5 e) ''./*/SENSING_TIME'' =
     map (strip_image_ids 3) (findall e ''./*/SENSING_TIME'')"
  using child_steps_strip [of "[''*'', ''SENSING_TIME'']" 3 "[e]"]
  by (simp add: findall_def split_search_term select_self eval_nat_numeral)

lemma index0_map: "index0 (map f xs) = map_sum id f (index0 xs)"
  by (cases xs) (simp_all add: index0_def)

lemma grn_elements_strip:
  "grn_elements (strip_image_ids 5 e) = map (strip_image_ids 0) (grn_elements e)"
  by (simp add: grn_elements_def findall_strip_granules Let_def)

lemma sensing_time_strip: "sensing_time env (strip_image_ids 5 root) = sensing_time env root"
  by (cases "findall root ''./*/SENSING_TIME''")
     (simp_all add: sensing_time_def findall_strip_sensing index0_def strip_image_ids_fields)

lemma namelist_strip: "namelist (strip_archive ms) = namelist ms"
  by (simp add: namelist_def strip_archive_def o_def split_def)

lemma archive_read_strip:
  "archive_read (strip_archive ms) name = map_sum id strip_content (archive_read ms name)"
proof -
  have "rev (strip_archive ms) = map (\<lambda>(k, m). (k, strip_member m)) (rev ms)"
    by (simp add: strip_archive_def rev_map)
  then have "map_of (rev (strip_archive ms)) name = map_option strip_member (map_of (rev ms) name)"
    by (simp add: map_of_map)
  then show ?thesis
    by (simp add: archive_read_def strip_member_def split: option.splits member.splits)
qed

lemma XML_strip: "XML (strip_content c) = map_sum id (strip_image_ids 5) (XML c)"
  by (cases c) (simp_all add: XML_def strip_content_def)

lemma parse_getroot_strip:
  "parse_getroot (strip_fs fs) name = map_sum id (strip_image_ids 5) (parse_getroot fs name)"
  by (simp add: parse_getroot_def strip_fs_def strip_node_def XML_strip
           split: option.splits fsnode.splits)

lemma ZipFile_strip:
  "ZipFile (strip_fs fs) name = map_sum id strip_archive (ZipFile fs name)"
  by (simp add: ZipFile_def strip_fs_def strip_node_def split: option.splits fsnode.splits)

lemma xmlzipfiles_strip:
  "xmlzipfiles (strip_archive archive) gran_id pb = xmlzipfiles archive gran_id pb"
  by (simp add: xmlzipfiles_def namelist_strip Let_def split: option.splits)

lemma xmlfiles_strip: "xmlfiles pathname (strip_archive archive) = xmlfiles pathname archive"
  by (simp add: xmlfiles_def namelist_strip Let_def)

lemma granule_root_strip:
  "granule_root (strip_fs fs) pathname (strip_archive archive) pb gran_id =
   map_sum id (strip_image_ids 5) (granule_root fs pathname archive pb gran_id)"
  by (simp add: granule_root_def parse_getroot_strip xmlzipfiles_strip archive_read_strip
        XML_strip split: option.splits sum.splits)

lemma granules_loop_strip:
  "granules_loop env (strip_fs fs) pathname (strip_archive archive) pb
     (map (strip_image_ids 0) gs) results =
   granules_loop env fs pathname archive pb gs results"
proof (induction gs arbitrary: results)
  case Nil
  then show ?case by simp
next
  case (Cons g gs)
  show ?case
  proof (cases "granule_root fs pathname archive pb (elem_get g ''granuleIdentifier'')")
    case (Inl e)
    then show ?thesis
      by (simp add: granule_root_strip elem_get_def strip_image_ids_fields)
  next
    case (Inr root)
    then show ?thesis
      using Cons.IH
      by (simp add: granule_root_strip elem_get_def strip_image_ids_fields sensing_time_strip
            split: sum.splits)
  qed
qed

lemma extract_document_strip:
  "extract_document env (strip_fs fs) pathname (strip_archive archive) (strip_content c) =
   extract_document env fs pathname archive c"
proof (cases c)
  case NotXml
  then show ?thesis by (simp add: extract_document_def XML_def strip_content_def)
next
  case (WellFormed e)
  show ?thesis
  proof (cases "grn_elements e")
    case Nil
    then show ?thesis
      using WellFormed
      by (simp add: extract_document_def XML_def strip_content_def grn_elements_strip index0_def)
  next
    case (Cons g gs)
    show ?thesis
    proof (cases "findall e ''./*/Product_Info/PROCESSING_BASELINE''")
      case Nil
      then show ?thesis
        using WellFormed Cons
        by (simp add: extract_document_def XML_def strip_content_def grn_elements_strip
              index0_def findall_strip_baseline)
    next
      case pb: (Cons pb pbs)
      have "granules_loop env (strip_fs fs) pathname (strip_archive archive) (elem_text pb)
              (map (strip_image_ids 0) (g # gs)) [] =
            granules_loop env fs pathname archive (elem_text pb) (g # gs) []"
        by (rule granules_loop_strip)
      then show ?thesis
        using WellFormed Cons pb
        by (simp add: extract_document_def XML_def strip_content_def grn_elements_strip
              index0_def findall_strip_baseline strip_image_ids_fields Let_def)
    qed
  qed
qed

lemma get_archive_metadata_strip:
  "get_archive_metadata env (strip_fs fs) pathname = get_archive_metadata env fs pathname"
proof (cases "ZipFile fs (path_str pathname)")
  case (Inl e)
  then show ?thesis by (simp add: get_archive_metadata_def ZipFile_strip)
next
  case (Inr archive)
  show ?thesis
  proof (cases "index0 (xmlfiles pathname archive)")
    case (Inl e)
    then show ?thesis
      using Inr by (simp add: get_archive_metadata_def ZipFile_strip xmlfiles_strip)
  next
    case name: (Inr name)
    show ?thesis
    proof (cases "archive_read archive name")
      case (Inl e)
      then show ?thesis
        using Inr name
        by (simp add: get_archive_metadata_def ZipFile_strip xmlfiles_strip archive_read_strip)
    next
      case c: (Inr c)
      then show ?thesis
        using Inr name
        by (simp add: get_archive_metadata_def ZipFile_strip xmlfiles_strip archive_read_strip
              extract_document_strip)
    qed
  qed
qed

lemma strip_fs_upd: "strip_fs (fs(name \<mapsto> n)) = (strip_fs fs)(name \<mapsto> strip_node n)"
  by (rule ext) (simp add: strip_fs_def)

section \<open>The product metadata document and the result\<close>

text \<open>
  The first candidate member, when it can be read, is the document that the
  extraction continues with.  When every granule node of the document yields a sensing
  time, the result is the dictionary of the granule identifiers and these times, and
  that is the list of the pairs themselves when the identifiers are distinct.  A result
  is built by at least one round of the loop over the granule nodes, so it has at
  least one key.
\<close>

lemma first_member_extracts:
  assumes "ZipFile fs (path_str pathname) = Inr archive"
    and "xmlfiles pathname archive = name # others"
    and "archive_read archive name = Inr mtd_xml"
  shows "get_archive_metadata env fs pathname =
         extract_document env fs pathname archive mtd_xml"
  using assms by (simp add: get_archive_metadata_def index0_def)

lemma granules_loop_all_times:
  "map (granule_time env fs pathname archive pb) gs = map Inr ds \<Longrightarrow>
   granules_loop env fs pathname archive pb gs results =
   Inr (foldl (\<lambda>d (k, v). dict_set d k v) results
          (zip (map (\<lambda>g. elem_get g ''granuleIdentifier'') gs) ds))"
proof (induction gs arbitrary: results ds)
  case Nil
  then show ?case by simp
next
  case (Cons g gs)
  from Cons.prems obtain d ds' where ds: "ds = d # ds'"
    and time: "granule_time env fs pathname archive pb g = Inr d"
    and rest: "map (granule_time env fs pathname archive pb) gs = map Inr ds'"
    by (cases ds) auto
  from time obtain root where
    root: "granule_root fs pathname archive pb (elem_get g ''granuleIdentifier'') = Inr root"
    and st: "sensing_time env root = Inr d"
    by (auto simp: granule_time_def split: sum.splits)
  show ?case
    using Cons.IH [OF rest] root st ds by simp
qed

lemma extract_document_all_times:
  assumes "grn_elements xml_root \<noteq> []"
    and "findall xml_root ''./*/Product_Info/PROCESSING_BASELINE'' = pb # pbs"
    and "map (granule_time env fs pathname archive (elem_text pb)) (grn_elements xml_root) =
         map Inr ds"
  shows "extract_document env fs pathname archive (WellFormed xml_root) =
         Inr (dict_of (zip (map (\<lambda>g. elem_get g ''granuleIdentifier'') (grn_elements xml_root)) ds))"
proof -
  obtain g0 gs where "grn_elements xml_root = g0 # gs"
    using assms(1) by (cases "grn_elements xml_root") auto
  then show ?thesis
    using assms(2) granules_loop_all_times [OF assms(3), of "[]"]
    by (simp add: extract_document_def XML_def index0_def Let_def dict_of_def)
qed

lemma dict_set_fresh: "k \<notin> fst ` set kvs \<Longrightarrow> dict_set kvs k v = kvs @ [(k, v)]"
  by (induction kvs) auto

lemma foldl_dict_set_distinct:
  "distinct ks \<Longrightarrow> set ks \<inter> fst ` set acc = {} \<Longrightarrow> length ks = length vs \<Longrightarrow>
   foldl (\<lambda>d (k, v). dict_set d k v) acc (zip ks vs) = acc @ zip ks vs"
proof (induction ks arbitrary: acc vs)
  case Nil
  then show ?case by simp
next
  case (Cons k ks)
  then obtain v vs' where vs: "vs = v # vs'" by (cases vs) auto
  have fresh: "dict_set acc k v = acc @ [(k, v)]"
    using Cons.prems(2) by (intro dict_set_fresh) auto
  have "foldl (\<lambda>d (k, v). dict_set d k v) (acc @ [(k, v)]) (zip ks vs') =
        (acc @ [(k, v)]) @ zip ks vs'"
    using Cons.prems vs by (intro Cons.IH) auto
  then show ?case using vs fresh by simp
qed

lemma dict_of_distinct:
  "distinct ks \<Longrightarrow> length ks = length vs \<Longrightarrow> dict_of (zip ks vs) = zip ks vs"
  using foldl_dict_set_distinct [of ks "[]" vs] by (simp add: dict_of_def)

lemma dict_set_nonempty: "dict_set kvs k v \<noteq> []"
  by (cases kvs) (auto split: if_splits)

lemma granules_loop_nonempty:
  "granules_loop env fs pathname archive pb gs acc = Inr results \<Longrightarrow>
   gs \<noteq> [] \<or> acc \<noteq> [] \<Longrightarrow> results \<noteq> []"
proof (induction gs arbitrary: acc)
  case Nil
  then show ?case by simp
next
  case (Cons g gs)
  show ?case
  proof (cases "granule_root fs pathname archive pb (elem_get g ''granuleIdentifier'')")
    case (Inl e)
    then show ?thesis using Cons.prems(1) by simp
  next
    case (Inr root)
    show ?thesis
    proof (cases "sensing_time env root")
      case (Inl e)
      then show ?thesis using Inr Cons.prems(1) by simp
    next
      case d: (Inr d)
      have "granules_loop env fs pathname archive pb gs
              (dict_set acc (elem_get g ''granuleIdentifier'') d) = Inr results"
        using Cons.prems(1) Inr d by simp
      then show ?thesis
        by (rule Cons.IH) (simp add: dict_set_nonempty)
    qed
  qed
qed

lemma extract_document_nonempty:
  assumes "extract_document env fs pathname archive c = Inr results"
  shows "results \<noteq> []"
proof (cases c)
  case NotXml
  then show ?thesis using assms by (simp add: extract_document_def XML_def)
next
  case (WellFormed e)
  show ?thesis
  proof (cases "grn_elements e")
    case Nil
    then show ?thesis
      using assms WellFormed by (simp add: extract_document_def XML_def index0_def)
  next
    case (Cons g gs)
    show ?thesis
    proof (cases "findall e ''./*/Product_Info/PROCESSING_BASELINE''")
      case Nil
      then show ?thesis
        using assms WellFormed Cons by (simp add: extract_document_def XML_def index0_def)
    next
      case pb: (Cons pb pbs)
      have "granules_loop env fs pathname archive (elem_text pb) (g # gs) [] = Inr results"
        using assms WellFormed Cons pb
        by (simp add: extract_document_def XML_def index0_def Let_def)
      then show ?thesis
        by (rule granules_loop_nonempty) simp
    qed
  qed
qed

lemma get_archive_metadata_nonempty:
  assumes "get_archive_metadata env fs pathname = Inr results"
  shows "results \<noteq> []"
proof (cases "ZipFile fs (path_str pathname)")
  case (Inl e)
  then show ?thesis using assms by (simp add: get_archive_metadata_def)
next
  case (Inr archive)
  show ?thesis
  proof (cases "index0 (xmlfiles pathname archive)")
    case (Inl e)
    then show ?thesis using assms Inr by (simp add: get_archive_metadata_def)
  next
    case name: (Inr name)
    show ?thesis
    proof (cases "archive_read archive name")
      case (Inl e)
      then show ?thesis using assms Inr name by (simp add: get_archive_metadata_def)
    next
      case c: (Inr c)
      then have "extract_document env fs pathname archive c = Inr results"
        using assms Inr name by (simp add: get_archive_metadata_def)
      then show ?thesis by (rule extract_document_nonempty)
    qed
  qed
qed

section \<open>The extraction results of the examples\<close>

lemma example_a_metadata:
  "get_archive_metadata (example_env b) example_fs (Path ''/d/a.zip'') =
     Inr [(Some ''S2A_T99ZZZ_N02.04'', ''2021-03-01T00:12:00Z''),
          (Some ''S2A_T50HMH_N02.04'', ''2021-03-01T00:12:00Z'')]"
  by code_simp

lemma example_c_metadata:
  "get_archive_metadata (example_env b) example_fs (Path ''/d/c.zip'') =
     Inr [(Some ''S2B_T55HFA_N02.04'', ''2021-03-01T00:12:00Z'')]"
  by code_simp

section \<open>Properties of the filter\<close>

text \<open>
  Claim C2.  A dataset opens and its extracted mapping has, as first item in insertion
  order, a granule whose tile code, the second-to-last token of the identifier between
  underscores, is not in the region of interest.  Then \<open>filter_granule\<close> returns the
  count it was given, writes nothing to the worklist and makes no existence check; all
  it does is log the one message about that first granule, whatever granules follow
  and whatever their tiles are.
\<close>

theorem first_granule_outside_roi_rejects:
  assumes "acquisitions env (path_str p) = Inr u"
    and "get_archive_metadata env fs p = Inr ((Some g, d) # rest)"
    and "index_neg2 (str_split CHR ''_'' g) = Inr t"
    and "t \<notin> roi"
    and "filter_granule env fs w p roi pkgdir count = (w', r)"
  shows "r = Inr count \<and> out_stream w' = out_stream w \<and> pkg_checks w' = pkg_checks w \<and>
         log_records w' = log_records w @
           [(INFO, ''granule %s with MGRS tile ID %s outside AOI'', [g, t])]"
  using assms unfolding filter_granule_def by auto

theorem first_granule_outside_roi_rejects_witness:
  "fst (filter_granule (example_env False) example_fs empty_world (Path ''/d/a.zip'')
     {''T50HMH''} ''/pkg'' 0) =
   \<lparr> out_stream = [],
     log_records = [(INFO, ''granule %s with MGRS tile ID %s outside AOI'',
                     [''S2A_T99ZZZ_N02.04'', ''T99ZZZ''])],
     pkg_checks = [] \<rparr> \<and>
   snd (filter_granule (example_env False) example_fs empty_world (Path ''/d/a.zip'')
     {''T50HMH''} ''/pkg'' 0) = Inr 0"
proof -
  have h1: "acquisitions (example_env False) (path_str (Path ''/d/a.zip'')) = Inr ()"
    by (simp add: example_env_def)
  have h3: "index_neg2 (str_split CHR ''_'' ''S2A_T99ZZZ_N02.04'') = Inr ''T99ZZZ''"
    by code_simp
  have h4: "''T99ZZZ'' \<notin> {''T50HMH''}" by simp
  obtain w' r where h5: "filter_granule (example_env False) example_fs empty_world
      (Path ''/d/a.zip'') {''T50HMH''} ''/pkg'' 0 = (w', r)"
    by (cases "filter_granule (example_env False) example_fs empty_world
      (Path ''/d/a.zip'') {''T50HMH''} ''/pkg'' 0")
  show ?thesis
    using first_granule_outside_roi_rejects [OF h1 example_a_metadata h3 h4 h5] h5
    by (simp add: empty_world_def)
qed

text \<open>
  Claim C3.  A dataset opens, its extracted mapping has \<open>n\<close> granules, the tile code
  of the first one is in the region of interest and no output package exists for that
  granule and its date.  Then \<open>filter_granule\<close> appends the reference of the dataset
  to the worklist and returns the count grown by exactly \<open>n\<close>, the length of the whole
  mapping; the only existence check and the only log message are those of the first
  granule, so the other granules are not examined.  No other granule can trigger the
  acceptance: by \<open>worklist_write_implies_acceptance\<close> every call that writes to the
  worklist has this form.
\<close>

theorem accepted_dataset_counts_all_granules:
  assumes "acquisitions env (path_str p) = Inr u"
    and "get_archive_metadata env fs p = Inr ((Some g, d) # rest)"
    and "index_neg2 (str_split CHR ''_'' g) = Inr t"
    and "t \<in> roi"
    and "\<not> package_exists env (path_str p) g (join pkgdir (strftime_ymd env d))"
  shows "filter_granule env fs w p roi pkgdir count =
           (w\<lparr> pkg_checks := pkg_checks w @
                   [(path_str p, g, join pkgdir (strftime_ymd env d))],
                log_records := log_records w @
                   [(INFO, ''level1 dataset %s needs to be processed'', [path_str p])],
                out_stream := out_stream w @ [path_str p] \<rparr>,
            Inr (count + int (length ((Some g, d) # rest))))"
  using assms unfolding filter_granule_def by (simp add: Let_def)

theorem accepted_dataset_counts_all_granules_witness:
  "filter_granule (example_env False) example_fs empty_world (Path ''/d/a.zip'')
     {''T99ZZZ''} ''/pkg'' 0 =
   (\<lparr> out_stream = [''/d/a.zip''],
      log_records = [(INFO, ''level1 dataset %s needs to be processed'', [''/d/a.zip''])],
      pkg_checks = [(''/d/a.zip'', ''S2A_T99ZZZ_N02.04'', ''/pkg/2021-03-01'')] \<rparr>,
    Inr 2)"
proof -
  have h1: "acquisitions (example_env False) (path_str (Path ''/d/a.zip'')) = Inr ()"
    by (simp add: example_env_def)
  have h3: "index_neg2 (str_split CHR ''_'' ''S2A_T99ZZZ_N02.04'') = Inr ''T99ZZZ''"
    by code_simp
  have h4: "''T99ZZZ'' \<in> {''T99ZZZ''}" by simp
  have h5: "\<not> package_exists (example_env False) (path_str (Path ''/d/a.zip''))
      ''S2A_T99ZZZ_N02.04''
      (join ''/pkg'' (strftime_ymd (example_env False) ''2021-03-01T00:12:00Z''))"
    by (simp add: example_env_def)
  have str: "path_str (Path ''/d/a.zip'') = ''/d/a.zip''" by code_simp
  have pkg: "join ''/pkg'' (strftime_ymd (example_env False) ''2021-03-01T00:12:00Z'') =
      ''/pkg/2021-03-01''"
    by code_simp
  show ?thesis
    using accepted_dataset_counts_all_granules
      [where w = empty_world and count = 0, OF h1 example_a_metadata h3 h4 h5]
    by (simp add: str pkg empty_world_def)
qed

text \<open>
  Claim C4.  One call of \<open>filter_granule\<close> makes at most one existence check.  If it
  makes one, it is for the first granule of the extracted mapping, with the date of
  that granule, and the tile code of that granule is in the region of interest.  This
  holds for every answer of the check.
\<close>

theorem locator_consulted_at_most_once:
  "\<exists>cs. pkg_checks (fst (filter_granule env fs w p roi pkgdir count)) = pkg_checks w @ cs \<and>
     length cs \<le> 1 \<and>
     (\<forall>c \<in> set cs. \<exists>g d rest t. get_archive_metadata env fs p = Inr ((Some g, d) # rest) \<and>
        index_neg2 (str_split CHR ''_'' g) = Inr t \<and> t \<in> roi \<and>
        c = (path_str p, g, join pkgdir (strftime_ymd env d)))"
proof (cases "acquisitions env (path_str p)")
  case (Inl e)
  then show ?thesis unfolding filter_granule_def by simp
next
  case (Inr u)
  show ?thesis
  proof (cases "get_archive_metadata env fs p")
    case (Inl e)
    then show ?thesis using Inr unfolding filter_granule_def by simp
  next
    case md: (Inr md)
    show ?thesis
      using granule_md_loop_checks [of env w p roi pkgdir count md md] Inr md
      unfolding filter_granule_def by simp
  qed
qed

theorem locator_consulted_at_most_once_witness:
  "pkg_checks (fst (filter_granule (example_env True) example_fs empty_world
      (Path ''/d/c.zip'') {''T55HFA''} ''/pkg'' 0)) =
   [(''/d/c.zip'', ''S2B_T55HFA_N02.04'', ''/pkg/2021-03-01'')]"
proof -
  have nonempty: "pkg_checks (fst (filter_granule (example_env True) example_fs empty_world
      (Path ''/d/c.zip'') {''T55HFA''} ''/pkg'' 0)) \<noteq> []"
    by code_simp
  have str: "path_str (Path ''/d/c.zip'') = ''/d/c.zip''" by code_simp
  have pkg: "join ''/pkg'' (strftime_ymd (example_env True) ''2021-03-01T00:12:00Z'') = ''/pkg/2021-03-01''"
    by code_simp
  obtain cs where cs: "pkg_checks (fst (filter_granule (example_env True) example_fs empty_world
      (Path ''/d/c.zip'') {''T55HFA''} ''/pkg'' 0)) = pkg_checks empty_world @ cs"
    "length cs \<le> 1"
    "\<forall>c \<in> set cs. \<exists>g d rest t.
        get_archive_metadata (example_env True) example_fs (Path ''/d/c.zip'') = Inr ((Some g, d) # rest) \<and>
        index_neg2 (str_split CHR ''_'' g) = Inr t \<and> t \<in> {''T55HFA''} \<and>
        c = (path_str (Path ''/d/c.zip''), g, join ''/pkg'' (strftime_ymd (example_env True) d))"
    using locator_consulted_at_most_once [of "example_env True" example_fs empty_world
      "Path ''/d/c.zip''" "{''T55HFA''}" "''/pkg''" 0] by blast
  from cs(1) nonempty have "cs \<noteq> []" by (simp add: empty_world_def)
  then obtain c where c: "cs = [c]" using cs(2) by (cases cs) auto
  then have "c = (''/d/c.zip'', ''S2B_T55HFA_N02.04'', ''/pkg/2021-03-01'')"
    using cs(3) by (auto simp: example_c_metadata str pkg)
  then show ?thesis using cs(1) c by (simp add: empty_world_def)
qed

text \<open>
  Claim C10.  One call of \<open>filter_granule\<close> leaves the worklist as it was or appends
  the reference of its dataset exactly once, so the number of lines equal to that
  reference grows by at most one.
\<close>

theorem written_at_most_once:
  "(out_stream (fst (filter_granule env fs w p roi pkgdir count)) = out_stream w \<or>
    out_stream (fst (filter_granule env fs w p roi pkgdir count)) = out_stream w @ [path_str p]) \<and>
   count_list (out_stream (fst (filter_granule env fs w p roi pkgdir count))) (path_str p)
     \<le> count_list (out_stream w) (path_str p) + 1"
  by (simp add: filter_granule_written)

theorem written_at_most_once_witness:
  "out_stream (fst (filter_granule (example_env False) example_fs empty_world
      (Path ''/d/a.zip'') {''T99ZZZ'', ''T50HMH''} ''/pkg'' 0)) = [''/d/a.zip'']"
proof -
  have "out_stream (fst (filter_granule (example_env False) example_fs empty_world
      (Path ''/d/a.zip'') {''T99ZZZ'', ''T50HMH''} ''/pkg'' 0)) \<noteq> []"
    by code_simp
  moreover have "path_str (Path ''/d/a.zip'') = ''/d/a.zip''" by code_simp
  ultimately show ?thesis
    using written_at_most_once [of "example_env False" example_fs empty_world
      "Path ''/d/a.zip''" "{''T99ZZZ'', ''T50HMH''}" "''/pkg''" 0]
    by (simp add: empty_world_def)
qed

text \<open>
  Claim C5.  The lines that \<open>filter_granules\<close> adds to the worklist are the references
  of the accepted datasets in the order of the input: of all the datasets when the
  call returns, and of those before the first dataset that raises otherwise.  In both
  cases the lines added are a subsequence of the input.
\<close>

theorem worklist_in_input_order:
  assumes "filter_granules env fs w raw_zips roi pkgdir = (w', r)"
  shows "out_stream w' = out_stream w @ map path_str
           (filter (accepted env fs roi pkgdir)
              (takeWhile (\<lambda>p. \<not> raises env fs roi pkgdir p) raw_zips)) \<and>
         (\<forall>n. r = Inr n \<longrightarrow>
            out_stream w' = out_stream w @ map path_str (filter (accepted env fs roi pkgdir) raw_zips)) \<and>
         subseq (drop (length (out_stream w)) (out_stream w')) (map path_str raw_zips)"
proof -
  let ?ok = "\<lambda>p. \<not> raises env fs roi pkgdir p"
  have out: "out_stream w' = out_stream w @ map path_str
      (filter (accepted env fs roi pkgdir) (takeWhile ?ok raw_zips))"
    using filter_granules_loop_written [of env fs w raw_zips roi pkgdir 0] assms
    by (simp add: filter_granules_def)
  have all: "takeWhile ?ok raw_zips = raw_zips" if "r = Inr n" for n
    using filter_granules_loop_returns [of env fs w raw_zips roi pkgdir 0 w' n] assms that
    by (simp add: filter_granules_def)
  have "subseq (filter (accepted env fs roi pkgdir) (takeWhile ?ok raw_zips)) raw_zips"
    by (metis subseq_filter_left subseq_order.order_trans prefix_imp_subseq takeWhile_is_prefix)
  then have "subseq (map path_str (filter (accepted env fs roi pkgdir) (takeWhile ?ok raw_zips)))
      (map path_str raw_zips)"
    by (rule subseq_map)
  then have sub: "subseq (drop (length (out_stream w)) (out_stream w')) (map path_str raw_zips)"
    by (simp add: out)
  have full: "out_stream w' = out_stream w @ map path_str (filter (accepted env fs roi pkgdir) raw_zips)"
    if "r = Inr n" for n
    using out by (simp only: all [OF that])
  show ?thesis using out full sub by blast
qed

theorem worklist_in_input_order_witness:
  "out_stream (fst (filter_granules (example_env False) example_fs empty_world
      [Path ''/d/c.zip'', Path ''/d/a.zip'', Path ''/d/S2A_OPER_PRD_MSIL1C_X.zip'']
      {''T55HFA'', ''T50HMH''} ''/pkg'')) = [''/d/c.zip'', ''/d/S2A_OPER_PRD_MSIL1C_X.zip''] \<and>
   snd (filter_granules (example_env False) example_fs empty_world
      [Path ''/d/c.zip'', Path ''/d/a.zip'', Path ''/d/S2A_OPER_PRD_MSIL1C_X.zip'']
      {''T55HFA'', ''T50HMH''} ''/pkg'') = Inr 2"
proof -
  let ?run = "filter_granules (example_env False) example_fs empty_world
      [Path ''/d/c.zip'', Path ''/d/a.zip'', Path ''/d/S2A_OPER_PRD_MSIL1C_X.zip'']
      {''T55HFA'', ''T50HMH''} ''/pkg''"
  have r: "snd ?run = Inr 2" by code_simp
  obtain w' where run: "?run = (w', Inr 2)"
    using r by (cases ?run) auto
  have acc: "map path_str (filter (accepted (example_env False) example_fs {''T55HFA'', ''T50HMH''} ''/pkg'')
       [Path ''/d/c.zip'', Path ''/d/a.zip'', Path ''/d/S2A_OPER_PRD_MSIL1C_X.zip'']) =
     [''/d/c.zip'', ''/d/S2A_OPER_PRD_MSIL1C_X.zip'']"
    by code_simp
  have "out_stream w' = out_stream empty_world @ map path_str
      (filter (accepted (example_env False) example_fs {''T55HFA'', ''T50HMH''} ''/pkg'')
         [Path ''/d/c.zip'', Path ''/d/a.zip'', Path ''/d/S2A_OPER_PRD_MSIL1C_X.zip''])"
    using worklist_in_input_order [OF run] by blast
  then show ?thesis
    using run by (simp only: acc fst_conv snd_conv) (simp add: empty_world_def)
qed

text \<open>
  Claim C1.  A batch of three datasets, the second an archive without any metadata
  member.  Every dataset opens.  The first dataset is accepted; on the second,
  \<open>get_archive_metadata\<close> raises IndexError at \<^verbatim>\<open>xmlfiles[0]\<close>, outside the
  \<^verbatim>\<open>try\<close> of \<open>filter_granule\<close>, and the exception leaves \<open>filter_granules\<close>: no
  warning is logged and the third dataset, which would be accepted, is never examined.
\<close>

theorem extractor_failure_aborts_batch:
  "filter_granules (example_env False) example_fs empty_world
      [Path ''/d/c.zip'', Path ''/d/b.zip'', Path ''/d/S2A_OPER_PRD_MSIL1C_X.zip'']
      {''T55HFA'', ''T50HMH''} ''/pkg'' =
   (\<lparr> out_stream = [''/d/c.zip''],
      log_records = [(INFO, ''level1 dataset %s needs to be processed'', [''/d/c.zip''])],
      pkg_checks = [(''/d/c.zip'', ''S2B_T55HFA_N02.04'', ''/pkg/2021-03-01'')] \<rparr>,
    Inl IndexError)"
  by code_simp

text \<open>
  Claim C7.  A reference that is a directory with the product metadata document and
  the granule metadata document at their places of the layout.  Line 42 opens every
  reference as a zip archive, so the extraction raises before any document is read;
  the reference to the product metadata document inside the directory fails as well.
\<close>

theorem directory_reference_fails:
  "example_fs ''/d/x.SAFE'' = Some Directory \<and>
   example_fs ''/d/x.SAFE/MTD_MSIL1C.xml'' =
     Some (RegularFile (product_doc ''Granule'' [(''S2B_MSI_T55HFA_N02.04'', ''IMAGE_FILE'')])) \<and>
   example_fs ''/d/x.SAFE/GRANULE/S2B_MSI_T55HFA_N02.04/S2B_MTD_T55HFA.xml'' =
     Some (RegularFile (granule_doc ''2021-03-01T00:12:00Z'')) \<and>
   get_archive_metadata (example_env False) example_fs (Path ''/d/x.SAFE'') =
     Inl IsADirectoryError \<and>
   get_archive_metadata (example_env False) example_fs (Path ''/d/x.SAFE/MTD_MSIL1C.xml'') =
     Inl BadZipFile"
  by code_simp

section \<open>Properties of the extractor\<close>

text \<open>
  Claim C6, as stated, fails: a match of the fallback pattern does not make the
  extraction succeed.  In this archive no member name contains \<^verbatim>\<open>MTD_MSIL1C.xml\<close>,
  one member name contains the fallback pattern, and the extraction raises ParseError
  because that member is no XML.  The pattern itself comes from replacing every
  \<^verbatim>\<open>.zip\<close> in the base name, not the extension only, as the last equation shows.
\<close>

theorem fallback_match_without_success:
  "ZipFile example_fs (path_str (Path ''/d/S2A_OPER_PRD_MSIL1C_Y.zip'')) = Inr not_xml_archive \<and>
   filter (str_in ''MTD_MSIL1C.xml'') (namelist not_xml_archive) = [] \<and>
   mtd_pattern (Path ''/d/S2A_OPER_PRD_MSIL1C_Y.zip'') = ''S2A_OPER_MTD_SAFL1C_Y.xml'' \<and>
   filter (str_in (mtd_pattern (Path ''/d/S2A_OPER_PRD_MSIL1C_Y.zip''))) (namelist not_xml_archive) =
     [''Y.SAFE/S2A_OPER_MTD_SAFL1C_Y.xml''] \<and>
   get_archive_metadata (example_env False) example_fs (Path ''/d/S2A_OPER_PRD_MSIL1C_Y.zip'') =
     Inl ParseError \<and>
   mtd_pattern (Path ''/d/S2A_OPER_PRD_MSIL1C_Z.zipped.zip'') =
     ''S2A_OPER_MTD_SAFL1C_Z.xmlped.xml''"
  by code_simp

text \<open>
  Claim C6, amended.  A reference opens as a zip archive, no member name contains
  \<^verbatim>\<open>MTD_MSIL1C.xml\<close>, and some member name contains the fallback pattern: the base
  name of the reference string in which every \<^verbatim>\<open>PRD_MSIL1C\<close> has been replaced by
  \<^verbatim>\<open>MTD_SAFL1C\<close>, with every \<^verbatim>\<open>.zip\<close> replaced by \<^verbatim>\<open>.xml\<close>.  The first such
  member can be read and is a well-formed document with at least one granule node and
  a processing baseline, and every granule node yields a sensing time.  Then the
  extraction succeeds with the dictionary from the granule identifiers to these times,
  in the order of the document when the identifiers are distinct.  An archive in
  which the same document is found by a direct match, with the same sensing times,
  gives the same result.
\<close>

theorem product_metadata_fallback:
  assumes "ZipFile fs (path_str pathname) = Inr archive"
    and "\<forall>s \<in> set (namelist archive). \<not> str_in ''MTD_MSIL1C.xml'' s"
    and "filter (str_in (str_replace
            (basename (str_replace (path_str pathname) ''PRD_MSIL1C'' ''MTD_SAFL1C''))
            ''.zip'' ''.xml''))
          (namelist archive) = name # others"
    and "archive_read archive name = Inr (WellFormed xml_root)"
    and "grn_elements xml_root \<noteq> []"
    and "findall xml_root ''./*/Product_Info/PROCESSING_BASELINE'' = pb # pbs"
    and "map (granule_time env fs pathname archive (elem_text pb)) (grn_elements xml_root) =
         map Inr ds"
    and "ZipFile fs' (path_str pathname') = Inr archive'"
    and "filter (str_in ''MTD_MSIL1C.xml'') (namelist archive') = name' # others'"
    and "archive_read archive' name' = Inr (WellFormed xml_root)"
    and "map (granule_time env fs' pathname' archive' (elem_text pb)) (grn_elements xml_root) =
         map Inr ds"
  shows "get_archive_metadata env fs pathname =
           Inr (dict_of (zip (map (\<lambda>g. elem_get g ''granuleIdentifier'') (grn_elements xml_root)) ds)) \<and>
         get_archive_metadata env fs' pathname' = get_archive_metadata env fs pathname \<and>
         (distinct (map (\<lambda>g. elem_get g ''granuleIdentifier'') (grn_elements xml_root)) \<longrightarrow>
            get_archive_metadata env fs pathname =
              Inr (zip (map (\<lambda>g. elem_get g ''granuleIdentifier'') (grn_elements xml_root)) ds))"
proof -
  let ?ids = "map (\<lambda>g. elem_get g ''granuleIdentifier'') (grn_elements xml_root)"
  have "filter (str_in ''MTD_MSIL1C.xml'') (namelist archive) = []"
    using assms(2) by (simp add: filter_empty_conv)
  then have "xmlfiles pathname archive = name # others"
    using assms(3) by (simp add: xmlfiles_def mtd_pattern_def)
  then have "get_archive_metadata env fs pathname =
      extract_document env fs pathname archive (WellFormed xml_root)"
    using assms(1) assms(4) by (simp add: first_member_extracts)
  then have fallback: "get_archive_metadata env fs pathname = Inr (dict_of (zip ?ids ds))"
    using extract_document_all_times [OF assms(5) assms(6) assms(7)] by simp
  have "xmlfiles pathname' archive' = name' # others'"
    using assms(9) by (simp add: xmlfiles_def)
  then have "get_archive_metadata env fs' pathname' =
      extract_document env fs' pathname' archive' (WellFormed xml_root)"
    using assms(8) assms(10) by (simp add: first_member_extracts)
  then have direct: "get_archive_metadata env fs' pathname' = Inr (dict_of (zip ?ids ds))"
    using extract_document_all_times [OF assms(5) assms(6) assms(11)] by simp
  have "length ?ids = length ds"
    using arg_cong [OF assms(7), of length] by simp
  then have "dict_of (zip ?ids ds) = zip ?ids ds" if "distinct ?ids"
    using that by (rule dict_of_distinct [rotated])
  then show ?thesis
    using fallback direct by simp
qed

theorem product_metadata_fallback_witness:
  "get_archive_metadata (example_env False) example_fs (Path ''/d/S2A_OPER_PRD_MSIL1C_X.zip'') =
     Inr [(Some ''S2A_OPER_MSI_L1C_TL_T50HMH_N02.04'', ''2016-01-05T02:10:00Z'')] \<and>
   get_archive_metadata (example_env False) example_fs (Path ''/d/x.zip'') =
     get_archive_metadata (example_env False) example_fs (Path ''/d/S2A_OPER_PRD_MSIL1C_X.zip'')"
proof -
  let ?p = "Path ''/d/S2A_OPER_PRD_MSIL1C_X.zip''"
  let ?q = "Path ''/d/x.zip''"
  let ?root = "product_root ''Granules'' [(''S2A_OPER_MSI_L1C_TL_T50HMH_N02.04'', ''IMAGE_ID'')]"
  let ?pb = "Element ''PROCESSING_BASELINE'' [] (Some ''02.04'') []"
  have zip: "ZipFile example_fs (path_str ?p) = Inr old_names_archive"
    by code_simp
  have none: "\<forall>s \<in> set (namelist old_names_archive). \<not> str_in ''MTD_MSIL1C.xml'' s"
    by code_simp
  have found: "filter (str_in (str_replace
        (basename (str_replace (path_str ?p) ''PRD_MSIL1C'' ''MTD_SAFL1C'')) ''.zip'' ''.xml''))
      (namelist old_names_archive) = ''X.SAFE/S2A_OPER_MTD_SAFL1C_X.xml'' # []"
    by code_simp
  have rd: "archive_read old_names_archive ''X.SAFE/S2A_OPER_MTD_SAFL1C_X.xml'' =
      Inr (WellFormed ?root)"
    by code_simp
  have gs: "grn_elements ?root \<noteq> []"
    by code_simp
  have pb: "findall ?root ''./*/Product_Info/PROCESSING_BASELINE'' = ?pb # []"
    by code_simp
  have times: "map (granule_time (example_env False) example_fs ?p old_names_archive
        (elem_text ?pb)) (grn_elements ?root) = map Inr [''2016-01-05T02:10:00Z'']"
    by code_simp
  have zip': "ZipFile example_fs (path_str ?q) = Inr new_names_archive"
    by code_simp
  have found': "filter (str_in ''MTD_MSIL1C.xml'') (namelist new_names_archive) =
      ''X.SAFE/MTD_MSIL1C.xml'' # []"
    by code_simp
  have rd': "archive_read new_names_archive ''X.SAFE/MTD_MSIL1C.xml'' = Inr (WellFormed ?root)"
    by code_simp
  have times': "map (granule_time (example_env False) example_fs ?q new_names_archive
        (elem_text ?pb)) (grn_elements ?root) = map Inr [''2016-01-05T02:10:00Z'']"
    by code_simp
  have ids: "map (\<lambda>g. elem_get g ''granuleIdentifier'') (grn_elements ?root) =
      [Some ''S2A_OPER_MSI_L1C_TL_T50HMH_N02.04'']"
    by code_simp
  show ?thesis
    using product_metadata_fallback
      [OF zip none found rd gs pb times zip' found' rd' times']
    by (simp add: ids dict_of_def)
qed

text \<open>
  Claim C8, as stated, fails: the retry path of the program is not the search path
  without its final segment.  On a document whose granule list has no granule nodes,
  the path without its final segment selects the list node, yet the program finds no
  granule node on either tier and the extraction raises IndexError.
\<close>

theorem retry_is_not_path_minus_final_segment:
  "spec_retry_term = ''./*/Product_Info/Product_Organisation/Granule_List'' \<and>
   butlast search_term \<noteq> spec_retry_term \<and>
   findall (granule_list_root []) spec_retry_term \<noteq> [] \<and>
   grn_elements (granule_list_root []) = [] \<and>
   get_archive_metadata (example_env False) example_fs (Path ''/d/e.zip'') = Inl IndexError"
  by code_simp

text \<open>
  Claim C8, amended.  A result that \<open>get_archive_metadata\<close> returns is never empty.
  The granule nodes are looked up with the search path and, when that finds nothing,
  with the search path without its final character, whose last step is
  \<^verbatim>\<open>Granule\<close> in place of \<^verbatim>\<open>Granules\<close>; only when both lookups find nothing does
  the extraction from the document raise IndexError.
\<close>

theorem extraction_nonempty_retry_drops_final_character:
  "(\<forall>results. get_archive_metadata env fs pathname = Inr results \<longrightarrow> results \<noteq> []) \<and>
   butlast search_term = ''./*/Product_Info/Product_Organisation/Granule_List/Granule'' \<and>
   (findall xml_root search_term = [] \<longrightarrow>
      grn_elements xml_root = findall xml_root (butlast search_term)) \<and>
   (findall xml_root search_term \<noteq> [] \<longrightarrow>
      grn_elements xml_root = findall xml_root search_term) \<and>
   (grn_elements xml_root = [] \<longrightarrow>
      extract_document env fs pathname archive (WellFormed xml_root) = Inl IndexError)"
proof -
  have "butlast search_term = ''./*/Product_Info/Product_Organisation/Granule_List/Granule''"
    by (simp add: search_term_def)
  moreover have "extract_document env fs pathname archive (WellFormed xml_root) = Inl IndexError"
    if "grn_elements xml_root = []"
    using that by (simp add: extract_document_def XML_def index0_def)
  ultimately show ?thesis
    using get_archive_metadata_nonempty [of env fs pathname]
    by (auto simp: grn_elements_def Let_def)
qed

theorem extraction_nonempty_retry_drops_final_character_witness:
  "findall (product_root ''Granule'' [(''S2B_T55HFA_N02.04'', ''IMAGE_FILE'')]) search_term = [] \<and>
   grn_elements (product_root ''Granule'' [(''S2B_T55HFA_N02.04'', ''IMAGE_FILE'')]) =
     findall (product_root ''Granule'' [(''S2B_T55HFA_N02.04'', ''IMAGE_FILE'')])
       ''./*/Product_Info/Product_Organisation/Granule_List/Granule'' \<and>
   get_archive_metadata (example_env False) example_fs (Path ''/d/c.zip'') =
     Inr [(Some ''S2B_T55HFA_N02.04'', ''2021-03-01T00:12:00Z'')] \<and>
   [(Some ''S2B_T55HFA_N02.04'', ''2021-03-01T00:12:00Z'')] \<noteq> []"
proof -
  let ?root = "product_root ''Granule'' [(''S2B_T55HFA_N02.04'', ''IMAGE_FILE'')]"
  have empty: "findall ?root search_term = []" by code_simp
  show ?thesis
    using extraction_nonempty_retry_drops_final_character
      [of "example_env False" example_fs "Path ''/d/c.zip''" ?root "[]"]
      empty example_c_metadata [of False]
    by auto
qed

text \<open>
  Claim C9.  Two file systems that are equal once the \<^verbatim>\<open>IMAGE_ID\<close> and
  \<^verbatim>\<open>IMAGE_FILE\<close> children of the elements at the level of the granule nodes have been
  removed from every document give the same outcome of \<open>get_archive_metadata\<close>, result
  or exception, for every reference.
\<close>

theorem image_identity_not_observable:
  assumes "strip_fs fs1 = strip_fs fs2"
  shows "get_archive_metadata env fs1 pathname = get_archive_metadata env fs2 pathname"
  using assms get_archive_metadata_strip [of env fs1 pathname]
    get_archive_metadata_strip [of env fs2 pathname]
  by simp

theorem image_identity_not_observable_witness:
  "example_fs ''/d/a.zip'' \<noteq> example_fs' ''/d/a.zip'' \<and>
   get_archive_metadata (example_env False) example_fs (Path ''/d/a.zip'') =
   get_archive_metadata (example_env False) example_fs' (Path ''/d/a.zip'')"
proof -
  have differ: "example_fs ''/d/a.zip'' \<noteq> example_fs' ''/d/a.zip''"
    by code_simp
  have "strip_fs example_fs ''/d/a.zip'' =
      Some (strip_node (ZipArchive
        [(''a.SAFE/MTD_MSIL1C.xml'',
          Stored (product_doc ''Granules''
            [(''S2A_T99ZZZ_N02.04'', ''IMAGE_FILE''), (''S2A_T50HMH_N02.04'', ''IMAGE_FILE'')])),
         (''a.SAFE/GRANULE/g/MTD_TL.xml'', Stored (granule_doc ''2021-03-01T00:12:00Z''))]))"
    by code_simp
  then have same: "strip_fs example_fs = strip_fs example_fs'"
    by (simp add: example_fs'_def strip_fs_upd map_upd_triv)
  show ?thesis
    using image_identity_not_observable [OF same, of "example_env False" "Path ''/d/a.zip''"] differ
    by simp
qed

end
